theory Spec2Isabelle
  imports Complex_Main
begin

section \<open>Values shared by the pages\<close>

text \<open>
  A JavaScript \<^verbatim>\<open>number\<close> is read as an exact rational: the pages only multiply,
  divide and subtract small pixel and confidence values.  The non-finite doubles (a
  division by zero) are not values of this type; the one place where the source can
  produce them, the overlay's \<^verbatim>\<open>scale\<close>, is a branch of its own below.
\<close>

type_synonym number = rat

text \<open>
  \<^verbatim>\<open>interface DetectedFace { name; confidence; box: [x, y, w, h] }\<close> of the
  Camera component, which is also \<^verbatim>\<open>Face\<close> of GroupAnalysis and
  \<^verbatim>\<open>FaceResult\<close> of Analysis (the latter with an optional \<^verbatim>\<open>distance\<close>).
\<close>

record face =
  name :: string
  confidence :: number
  box :: "number \<times> number \<times> number \<times> number"
  distance :: "number option"

subsection \<open>\<^verbatim>\<open>Number.prototype.toFixed\<close>\<close>

definition digit :: "nat \<Rightarrow> char" where
  "digit d = ''0123456789'' ! (d mod 10)"

function decimal :: "nat \<Rightarrow> string" where
  "decimal n = (if n < 10 then [digit n] else decimal (n div 10) @ [digit (n mod 10)])"
  by pat_completeness auto
termination
  by (relation "measure id") auto

text \<open>
  \<^verbatim>\<open>x.toFixed(f)\<close> for \<open>|x| < 10\<^sup>2\<^sup>1\<close>: the sign, then the integer \<open>n\<close> nearest to
  \<open>|x| \<sqdot> 10\<^sup>f\<close> (the larger one on a tie) written with \<open>f\<close> digits after the point.
\<close>

definition toFixed :: "nat \<Rightarrow> number \<Rightarrow> string" where
  "toFixed f x =
     (let n = nat \<lfloor>\<bar>x\<bar> * 10 ^ f + 1 / 2\<rfloor>;
          whole = decimal (n div 10 ^ f);
          frac = decimal (n mod 10 ^ f);
          digits = (if f = 0 then whole
                    else whole @ ''.'' @ replicate (f - length frac) (CHR ''0'') @ frac)
      in if x < 0 then ''-'' @ digits else digits)"

section \<open>The Camera component: the overlay render loop\<close>

text \<open>
  The two elements behind \<^verbatim>\<open>videoRef\<close> and \<^verbatim>\<open>canvasRef\<close>.  A video
  element carries the size of the frames it is producing (zero until the stream
  delivers one), the JPEG encoding of its current frame, and the media stream bound to
  it (the identifiers of the stream's tracks).  A canvas carries its bitmap size and
  whether \<^verbatim>\<open>getContext('2d')\<close> yields a context.
\<close>

record video =
  videoWidth :: nat
  videoHeight :: nat
  currentFrame :: string
  srcObject :: "nat list option"

record canvas =
  width :: nat
  height :: nat
  hasContext :: bool

datatype draw_cmd =
    ClearRect number number number number
  | DrawVideo number number number number
  | StrokeStyle string
  | FillStyle string
  | LineWidth number
  | Font string
  | StrokeRect number number number number
  | FillRect number number number number
  | FillText string number number

text \<open>
  The label of a face on the overlay:
  \<^verbatim>\<open>`${face.name} (${(face.confidence * 100).toFixed(1)}%)`\<close>.
\<close>

definition overlayLabel :: "face \<Rightarrow> string" where
  "overlayLabel fc = name fc @ '' ('' @ toFixed 1 (confidence fc * 100) @ ''%)''"




section \<open>The result lists of Analysis and GroupAnalysis\<close>

text \<open>
  \<^verbatim>\<open>renderResults\<close> of Analysis, the line under a face's name:
  \<^verbatim>\<open>Confidence: {face.confidence.toFixed(2)}%\<close>, or \<^verbatim>\<open>No match found\<close> for
  the name \<^verbatim>\<open>Unknown\<close>.
\<close>

definition resultsLabel :: "face \<Rightarrow> string" where
  "resultsLabel fc =
     (if name fc \<noteq> ''Unknown'' then ''Confidence: '' @ toFixed 2 (confidence fc) @ ''%''
      else ''No match found'')"

text \<open>
  The face list of GroupAnalysis in analysis mode:
  \<^verbatim>\<open>`${(face.confidence * 100).toFixed(2)}% confidence`\<close>, or
  \<^verbatim>\<open>No match found\<close> for the name \<^verbatim>\<open>Unknown\<close>; in verification mode the
  confidence line is shown for every face.
\<close>

definition groupLabel :: "bool \<Rightarrow> face \<Rightarrow> string" where
  "groupLabel verification fc =
     (if \<not> verification \<and> name fc = ''Unknown'' then ''No match found''
      else toFixed 2 (confidence fc * 100) @ ''% confidence'')"

text \<open>
  The specification's wording of the two conventions: a fraction is multiplied by 100
  for display, a percentage is shown as it is.
\<close>

datatype convention = Fraction | Percentage

definition spec_percent :: "convention \<Rightarrow> number \<Rightarrow> number" where
  "spec_percent conv c = (case conv of Fraction \<Rightarrow> c * 100 | Percentage \<Rightarrow> c)"


section \<open>GroupAnalysis: the submit handler\<close>

datatype group_mode = AnalysisMode | VerificationMode

text \<open>\<^verbatim>\<open>ResultResponse = AnalysisResponse | VerificationResponse\<close>, as one record.\<close>

record group_result =
  gr_success :: bool
  gr_faces :: "face list"
  gr_total_faces :: "nat option"
  gr_identified_count :: "nat option"
  gr_verified :: "bool option"
  gr_missing_users :: "string list"
  gr_extra_users :: "string list"
  gr_message :: "string option"

text \<open>The component's state hooks (\<^verbatim>\<open>useState\<close>), prefixed \<open>ga_\<close>.\<close>

record group_state =
  ga_mode :: group_mode
  ga_imageBase64 :: "string option"
  ga_results :: "group_result option"
  ga_isProcessing :: bool
  ga_error :: "string option"
  ga_requiredUsers :: "string list"
  ga_registeredUsers :: "string list"

text \<open>The body of the \<^verbatim>\<open>axios.post\<close>: endpoint and \<^verbatim>\<open>requestData\<close>.\<close>

record group_request =
  gq_endpoint :: string
  gq_image :: string
  gq_required_users :: "string list option"

text \<open>JavaScript truthiness of a string that may be \<^verbatim>\<open>null\<close>.\<close>

definition truthy :: "string option \<Rightarrow> bool" where
  "truthy v = (case v of None \<Rightarrow> False | Some str \<Rightarrow> str \<noteq> [])"

definition analyze_group_url :: string where
  "analyze_group_url = ''http://localhost:5001/api/analyze-group''"

definition verify_group_url :: string where
  "verify_group_url = ''http://localhost:5001/api/verify-group''"

text \<open>
  \<^verbatim>\<open>handleSubmit\<close> up to its \<^verbatim>\<open>await\<close>: the state it leaves and the request
  it posts, if any.
\<close>

definition handleSubmit :: "group_state \<Rightarrow> group_state \<times> group_request option" where
  "handleSubmit s =
     (if \<not> truthy (ga_imageBase64 s)
      then (s\<lparr>ga_error := Some ''Please select an image or capture one from the camera''\<rparr>,
            None)
      else if ga_mode s = VerificationMode \<and> length (ga_requiredUsers s) = 0
      then (s\<lparr>ga_error :=
                 Some ''Please select at least one required user for verification''\<rparr>,
            None)
      else (s\<lparr>ga_isProcessing := True, ga_error := None, ga_results := None\<rparr>,
            Some \<lparr>gq_endpoint =
                     (if ga_mode s = AnalysisMode then analyze_group_url
                      else verify_group_url),
                   gq_image = the (ga_imageBase64 s),
                   gq_required_users =
                     (if ga_mode s = VerificationMode then Some (ga_requiredUsers s)
                      else None)\<rparr>))"

text \<open>
  How the posted request ends: a response with a 2xx status and its body, a rejection
  that carries a response (and perhaps a message), one that carries only the request,
  or anything else.
\<close>

datatype axios_outcome =
    Resolved group_result
  | RejectedWithResponse "string option"
  | RejectedNoResponse
  | RejectedOther

text \<open>\<^verbatim>\<open>handleSubmit\<close> after its \<^verbatim>\<open>await\<close>, in the mode it was submitted in.\<close>

definition handleSubmit_settled :: "group_mode \<Rightarrow> axios_outcome \<Rightarrow> group_state \<Rightarrow> group_state" where
  "handleSubmit_settled submitted outcome s =
     (case outcome of
        Resolved d \<Rightarrow>
          (if gr_success d then s\<lparr>ga_results := Some d\<rparr>
           else s\<lparr>ga_error :=
                    (if truthy (gr_message d) then gr_message d
                     else if submitted = AnalysisMode
                     then Some ''An error occurred during analysis''
                     else Some ''An error occurred during verification'')\<rparr>)
      | RejectedWithResponse msg \<Rightarrow>
          s\<lparr>ga_error := (if truthy msg then msg
                          else Some ''An error occurred during group analysis'')\<rparr>
      | RejectedNoResponse \<Rightarrow>
          s\<lparr>ga_error := Some (''No response received from the server. '' @
                                ''Please check your network connection.'')\<rparr>
      | RejectedOther \<Rightarrow>
          s\<lparr>ga_error := Some ''An unexpected error occurred. Please try again.''\<rparr>)
     \<lparr>ga_isProcessing := False\<rparr>"

section \<open>Analysis and FaceRegistration: the images of a registration\<close>

text \<open>
  The \<^verbatim>\<open>forEach\<close> of \<^verbatim>\<open>handleImageUpload\<close> (the same in both pages): the files
  whose \<^verbatim>\<open>FileReader\<close> it starts.  \<^verbatim>\<open>selectedImages\<close> is the state as the
  handler's render saw it, and \<^verbatim>\<open>newImages\<close> the local array, which the source
  creates empty and never pushes to.
\<close>

fun startedReaders :: "string list \<Rightarrow> string list \<Rightarrow> string list \<Rightarrow> string list" where
  "startedReaders selectedImages newImages [] = []"
| "startedReaders selectedImages newImages (file # files) =
     (if length selectedImages + length newImages < 5
      then file # startedReaders selectedImages newImages files
      else startedReaders selectedImages newImages files)"

datatype analysis_mode = Register | Identify

text \<open>
  \<^verbatim>\<open>FaceRegistrationResponse | FaceIdentificationResponse\<close>, as one record; an
  absent optional field is \<open>None\<close>.
\<close>

record analysis_response =
  ar_success :: bool
  ar_message :: "string option"
  ar_results :: "face list option"
  ar_faces :: "face list option"
  ar_num_images_processed :: "nat option"

record analysis_state =
  an_isProcessing :: bool
  an_error :: "string option"
  an_success :: "string option"
  an_selectedImages :: "string list"
  an_maxImagesReached :: bool
  an_name :: string
  an_mode :: analysis_mode
  an_imagePreview :: "string option"
  an_result :: "analysis_response option"
  an_detectedFaces :: "face list"

text \<open>
  \<^verbatim>\<open>reader.onloadend\<close> for one file: the functional update appends to the images
  held now, while \<^verbatim>\<open>imagePreview\<close> is the value the handler's render saw.
\<close>

definition onloadend :: "string option \<Rightarrow> string \<Rightarrow> analysis_state \<Rightarrow> analysis_state" where
  "onloadend seenPreview base64Image s =
     (let updatedImages = an_selectedImages s @ [base64Image]
      in s\<lparr>an_selectedImages := updatedImages,
            an_maxImagesReached := (5 \<le> length updatedImages),
            an_imagePreview :=
              (if \<not> truthy seenPreview then Some base64Image else an_imagePreview s)\<rparr>)"

text \<open>
  \<^verbatim>\<open>handleImageUpload\<close> with every started reader run to its end (each file
  stands for the data URL its reader yields).  The readers finish here in file order;
  in the browser they may finish in any order, which changes the order of the images
  held but not which images are held.
\<close>

definition handleImageUpload :: "string list option \<Rightarrow> analysis_state \<Rightarrow> analysis_state" where
  "handleImageUpload files s =
     (case files of None \<Rightarrow> s
      | Some fs \<Rightarrow>
          fold (onloadend (an_imagePreview s)) (startedReaders (an_selectedImages s) [] fs) s)"

text \<open>\<^verbatim>\<open>prevImages.filter((_, index) => index !== indexToRemove)\<close>.\<close>

definition removeAt :: "nat \<Rightarrow> 'a list \<Rightarrow> 'a list" where
  "removeAt i xs = take i xs @ drop (Suc i) xs"

definition removeImage :: "nat \<Rightarrow> analysis_state \<Rightarrow> analysis_state" where
  "removeImage indexToRemove s =
     s\<lparr>an_selectedImages := removeAt indexToRemove (an_selectedImages s),
       an_maxImagesReached := False,
       an_imagePreview :=
         (if indexToRemove < length (an_selectedImages s) \<and>
             Some (an_selectedImages s ! indexToRemove) = an_imagePreview s
          then (if 1 < length (an_selectedImages s) then Some (an_selectedImages s ! 0)
                else None)
          else an_imagePreview s)\<rparr>"

definition handleCameraCapture :: "string \<Rightarrow> analysis_state \<Rightarrow> analysis_state" where
  "handleCameraCapture imageData s =
     s\<lparr>an_imagePreview := Some imageData, an_selectedImages := [imageData],
       an_error := None\<rparr>"

text \<open>
  \<^verbatim>\<open>String.prototype.trim\<close> on the six ASCII white-space characters (the
  Unicode ones, such as U+00A0, are left in place).
\<close>

definition isSpace :: "char \<Rightarrow> bool" where
  "isSpace ch = (of_char ch \<in> set [9, 10, 11, 12, 13, 32 :: nat])"

definition trim :: "string \<Rightarrow> string" where
  "trim str = rev (dropWhile isSpace (rev (dropWhile isSpace str)))"

datatype analysis_request =
    RegisterFace string "string list"
  | IdentifyFace string

text \<open>\<^verbatim>\<open>handleRegisterFace\<close> and \<^verbatim>\<open>handleIdentifyFace\<close> up to the \<^verbatim>\<open>await\<close>.\<close>

definition handleRegisterFace :: "analysis_state \<Rightarrow> analysis_state \<times> analysis_request option" where
  "handleRegisterFace s =
     (if trim (an_name s) = [] then (s\<lparr>an_error := Some ''Please enter a name''\<rparr>, None)
      else if length (an_selectedImages s) = 0
      then (s\<lparr>an_error := Some ''Please upload at least one image''\<rparr>, None)
      else (s\<lparr>an_isProcessing := True, an_error := None, an_success := None\<rparr>,
            Some (RegisterFace (trim (an_name s)) (an_selectedImages s))))"

definition handleIdentifyFace :: "analysis_state \<Rightarrow> analysis_state \<times> analysis_request option" where
  "handleIdentifyFace s =
     (if \<not> truthy (an_imagePreview s)
      then (s\<lparr>an_error := Some ''Please select an image or capture one from camera''\<rparr>,
            None)
      else (s\<lparr>an_isProcessing := True, an_error := None, an_result := None\<rparr>,
            Some (IdentifyFace (the (an_imagePreview s)))))"

text \<open>The form's \<^verbatim>\<open>handleSubmit\<close> of Analysis.\<close>

definition analysis_handleSubmit ::
  "analysis_state \<Rightarrow> analysis_state \<times> analysis_request option" where
  "analysis_handleSubmit s =
     (if length (an_selectedImages s) = 0 \<and> \<not> truthy (an_imagePreview s)
      then (s\<lparr>an_error := Some ''Please select an image or capture one from camera''\<rparr>,
            None)
      else if an_mode s = Register then handleRegisterFace s
      else handleIdentifyFace s)"

text \<open>
  The form's \<^verbatim>\<open>handleSubmit\<close> of FaceRegistration, on the same state: it checks the
  images first and the untrimmed name second.
\<close>

definition registration_handleSubmit ::
  "analysis_state \<Rightarrow> analysis_state \<times> analysis_request option" where
  "registration_handleSubmit s =
     (if length (an_selectedImages s) = 0
      then (s\<lparr>an_error := Some ''Please upload at least one image''\<rparr>, None)
      else if an_name s = [] then (s\<lparr>an_error := Some ''Please enter a name''\<rparr>, None)
      else (s\<lparr>an_isProcessing := True\<rparr>,
            Some (RegisterFace (an_name s) (an_selectedImages s))))"

text \<open>The page as it mounts.\<close>

definition analysis_init :: analysis_state where
  "analysis_init =
     \<lparr>an_isProcessing = False, an_error = None, an_success = None,
      an_selectedImages = [], an_maxImagesReached = False, an_name = [],
      an_mode = Identify, an_imagePreview = None, an_result = None,
      an_detectedFaces = []\<rparr>"

text \<open>
  \<^verbatim>\<open>handleIdentifyFace\<close> after its \<^verbatim>\<open>await\<close>: the response body of a resolved
  post, or \<open>None\<close> for a rejected one.
\<close>

definition handleIdentifyFace_settled ::
  "analysis_response option \<Rightarrow> analysis_state \<Rightarrow> analysis_state" where
  "handleIdentifyFace_settled outcome s =
     (case outcome of
        None \<Rightarrow> s\<lparr>an_error := Some ''Failed to identify face. Please try again.''\<rparr>
      | Some d \<Rightarrow>
          if ar_success d
          then (case ar_results d of
                  None \<Rightarrow> s\<lparr>an_result := Some d\<rparr>
                | Some rs \<Rightarrow> s\<lparr>an_result := Some d, an_detectedFaces := rs\<rparr>)
          else s\<lparr>an_error := (if truthy (ar_message d) then ar_message d
                               else Some ''Identification failed'')\<rparr>)
     \<lparr>an_isProcessing := False\<rparr>"

text \<open>
  What the page shows of a stored result: \<^verbatim>\<open>renderResults\<close> lists
  \<^verbatim>\<open>result.faces\<close> and then \<^verbatim>\<open>result.results\<close>, and the Camera component is
  handed \<^verbatim>\<open>detectedFaces\<close> for its overlay.
\<close>

definition renderResults :: "analysis_state \<Rightarrow> string list" where
  "renderResults s =
     (case an_result s of None \<Rightarrow> []
      | Some r \<Rightarrow>
          map resultsLabel (case ar_faces r of None \<Rightarrow> [] | Some fs \<Rightarrow> fs) @
          map resultsLabel (case ar_results r of None \<Rightarrow> [] | Some fs \<Rightarrow> fs))"

definition overlayLabels :: "analysis_state \<Rightarrow> string list" where
  "overlayLabels s = map overlayLabel (an_detectedFaces s)"

section \<open>Capturing a frame\<close>

text \<open>
  \<^verbatim>\<open>canvas.toDataURL('image/jpeg')\<close> after the video has been drawn: a canvas
  whose bitmap has no pixels yields the string \<^verbatim>\<open>data:,\<close>, any other canvas the
  JPEG data URL of what was drawn.
\<close>

definition toDataURL :: "canvas \<Rightarrow> string \<Rightarrow> string" where
  "toDataURL c drawn =
     (if width c = 0 \<or> height c = 0 then ''data:,''
      else ''data:image/jpeg;base64,'' @ drawn)"

text \<open>
  \<^verbatim>\<open>captureAndProcess\<close> of the Camera component, from the two refs and the
  \<^verbatim>\<open>isProcessing\<close> flag: the flag and the canvas it leaves, and the argument of
  \<^verbatim>\<open>onCapture\<close> when it is called.
\<close>

definition captureAndProcess ::
  "video option \<Rightarrow> canvas option \<Rightarrow> bool \<Rightarrow> bool \<times> canvas option \<times> string option" where
  "captureAndProcess videoRef canvasRef isProcessing =
     (case videoRef of None \<Rightarrow> (isProcessing, canvasRef, None) | Some v \<Rightarrow>
      (case canvasRef of None \<Rightarrow> (isProcessing, canvasRef, None) | Some c \<Rightarrow>
        if isProcessing then (isProcessing, canvasRef, None)
        else if hasContext c
        then (let c' = c\<lparr>width := videoWidth v, height := videoHeight v\<rparr>
              in (False, Some c', Some (toDataURL c' (currentFrame v))))
        else (True, canvasRef, None)))"

text \<open>
  The interval callback \<^verbatim>\<open>processFrame\<close> of the Camera component, with the props
  \<^verbatim>\<open>continuousProcessing\<close> and \<^verbatim>\<open>isActive\<close>.
\<close>

definition camera_processFrame ::
  "bool \<Rightarrow> bool \<Rightarrow> video option \<Rightarrow> canvas option \<Rightarrow> bool
     \<Rightarrow> bool \<times> canvas option \<times> string option" where
  "camera_processFrame continuousProcessing isActive videoRef canvasRef isProcessing =
     (if \<not> isProcessing \<and> continuousProcessing \<and> videoRef \<noteq> None \<and> isActive
      then captureAndProcess videoRef canvasRef isProcessing
      else (isProcessing, canvasRef, None))"

section \<open>CameraAnalysis: the live camera page\<close>

text \<open>A face and a parsed response body, as far as the page reads them.\<close>

record live_face =
  lf_box :: "(number \<times> number \<times> number \<times> number) option"
  lf_userId :: "string option"
  lf_name :: "string option"

record frame_data =
  fd_success :: "bool option"
  fd_faces :: "live_face list option"
  fd_count :: "nat option"
  fd_authenticated :: "bool option"
  fd_missingUsers :: "string list option"

text \<open>
  A posted frame: the \<^verbatim>\<open>type\<close> its \<^verbatim>\<open>processFrame\<close> closed over (read again
  after the \<^verbatim>\<open>await\<close>), the URL and the JSON payload.
\<close>

record frame_request =
  fq_type :: "string option"
  fq_url :: string
  fq_image :: string
  fq_requiredUsers :: "string list option"

text \<open>
  How a \<^verbatim>\<open>fetch\<close> ends: it rejects, or it resolves to a response with its
  \<^verbatim>\<open>ok\<close> flag and the outcome of \<^verbatim>\<open>response.json()\<close> (\<open>None\<close> when the body
  does not parse).  The call passes no abort signal, so nothing else ends it.
\<close>

datatype fetch_outcome = Rejected | Responded bool "frame_data option"

text \<open>What a run of \<^verbatim>\<open>processFrame\<close> does that is visible outside the page.\<close>

datatype effect = Encoded string | Submitted frame_request

text \<open>
  The page: its refs and state hooks, whether it is mounted (its interval armed), the
  requests awaiting their response, the console, what has been painted on the canvas
  since it was last resized, whether \<^verbatim>\<open>getUserMedia\<close> is still outstanding, and
  the media tracks that are open at the device.
\<close>

record camera_state =
  ca_videoRef :: "video option"
  ca_canvasRef :: "canvas option"
  ca_isProcessing :: bool
  ca_results :: "frame_data option"
  ca_type :: "string option"
  ca_requiredUsers :: "string list"
  ca_mounted :: bool
  ca_inFlight :: "frame_request list"
  ca_console :: "string list"
  ca_painted :: "draw_cmd list"
  ca_cameraPending :: bool
  ca_liveTracks :: "nat list"

text \<open>
  State setters and \<^verbatim>\<open>console.error\<close>.  A setter of an unmounted component does
  nothing.  The interval effect depends on \<^verbatim>\<open>type\<close>, \<^verbatim>\<open>requiredUsers\<close> and
  \<^verbatim>\<open>isProcessing\<close>, so each change of one of them re-creates the interval with a
  callback that sees the new values: the model takes a state change and this re-render
  as one step, and the callback reads the state itself.
\<close>

definition setIsProcessing :: "bool \<Rightarrow> camera_state \<Rightarrow> camera_state" where
  "setIsProcessing b s = (if ca_mounted s then s\<lparr>ca_isProcessing := b\<rparr> else s)"

definition setResults :: "frame_data \<Rightarrow> camera_state \<Rightarrow> camera_state" where
  "setResults d s = (if ca_mounted s then s\<lparr>ca_results := Some d\<rparr> else s)"

definition consoleError :: "string \<Rightarrow> camera_state \<Rightarrow> camera_state" where
  "consoleError msg s = s\<lparr>ca_console := ca_console s @ [msg]\<rparr>"

definition captureFrame :: "camera_state \<Rightarrow> string option \<times> camera_state" where
  "captureFrame s =
     (case ca_videoRef s of None \<Rightarrow> (None, s) | Some v \<Rightarrow>
      (case ca_canvasRef s of None \<Rightarrow> (None, s) | Some c \<Rightarrow>
        if hasContext c
        then (let c' = c\<lparr>width := videoWidth v, height := videoHeight v\<rparr>
              in (Some (toDataURL c' (currentFrame v)),
                  s\<lparr>ca_canvasRef := Some c',
                    ca_painted := [DrawVideo 0 0 (of_nat (videoWidth v))
                                     (of_nat (videoHeight v))]\<rparr>))
        else (None, s)))"

text \<open>The \<^verbatim>\<open>switch (type)\<close>: \<open>None\<close> where it throws.\<close>

definition requestFor :: "string option \<Rightarrow> string \<Rightarrow> string list \<Rightarrow> frame_request option" where
  "requestFor type frame requiredUsers =
     (if type = Some ''face''
      then Some \<lparr>fq_type = type, fq_url = ''http://localhost:5001/api/identify-face'',
                 fq_image = frame, fq_requiredUsers = None\<rparr>
      else if type = Some ''group''
      then Some \<lparr>fq_type = type, fq_url = ''http://localhost:5001/api/group-authentication'',
                 fq_image = frame, fq_requiredUsers = Some requiredUsers\<rparr>
      else if type = Some ''crowd''
      then Some \<lparr>fq_type = type, fq_url = ''http://localhost:5001/api/crowd-count'',
                 fq_image = frame, fq_requiredUsers = None\<rparr>
      else None)"

text \<open>
  \<^verbatim>\<open>processFrame\<close> up to its \<^verbatim>\<open>await\<close>: the frame is captured first, the
  guard \<^verbatim>\<open>if (!frame || isProcessing) return\<close> second.
\<close>

definition processFrame :: "camera_state \<Rightarrow> camera_state \<times> effect list" where
  "processFrame s0 =
     (case captureFrame s0 of (frame, s) \<Rightarrow>
        (let encoded = (case frame of None \<Rightarrow> [] | Some f \<Rightarrow> [Encoded f])
         in if \<not> truthy frame \<or> ca_isProcessing s then (s, encoded)
            else (case requestFor (ca_type s) (the frame) (ca_requiredUsers s) of
                    None \<Rightarrow>
                      (setIsProcessing False
                         (consoleError ''Error processing frame: Invalid analysis type''
                            (setIsProcessing True s)),
                       encoded)
                  | Some r \<Rightarrow>
                      ((setIsProcessing True s)\<lparr>ca_inFlight := ca_inFlight s @ [r]\<rparr>,
                       encoded @ [Submitted r]))))"

text \<open>
  The \<^verbatim>\<open>forEach\<close> over \<^verbatim>\<open>data.faces\<close>: what it paints, and whether it threw
  (reading \<^verbatim>\<open>box[0]\<close> of a face without a box).
\<close>

fun paintFaces :: "live_face list \<Rightarrow> draw_cmd list \<times> bool" where
  "paintFaces [] = ([], False)"
| "paintFaces (fc # fcs) =
     (let colour = (if truthy (lf_userId fc) then ''#00ff00'' else ''#ff0000'')
      in case lf_box fc of
           None \<Rightarrow> ([StrokeStyle colour, LineWidth 2], True)
         | Some (x, y, w, h) \<Rightarrow>
             (case paintFaces fcs of (cmds, threw) \<Rightarrow>
                ([StrokeStyle colour, LineWidth 2, StrokeRect x y w h, FillStyle colour,
                  Font ''16px Arial'',
                  FillText (if truthy (lf_name fc) then the (lf_name fc) else ''Unknown'')
                    x (y - 5)] @ cmds,
                 threw)))"

definition paintResults :: "string option \<Rightarrow> frame_data \<Rightarrow> camera_state \<Rightarrow> camera_state \<times> bool" where
  "paintResults type d s =
     (case ca_canvasRef s of None \<Rightarrow> (s, False) | Some c \<Rightarrow>
        if \<not> hasContext c then (s, False)
        else (case paintFaces (case fd_faces d of None \<Rightarrow> [] | Some fs \<Rightarrow> fs) of
                (cmds, threw) \<Rightarrow>
                  if threw then (s\<lparr>ca_painted := ca_painted s @ cmds\<rparr>, True)
                  else (s\<lparr>ca_painted := ca_painted s @ cmds @
                            (if type = Some ''crowd'' \<and>
                                (case fd_count d of None \<Rightarrow> False | Some n \<Rightarrow> n \<noteq> 0)
                             then [FillStyle ''#00ff00'', Font ''24px Arial'',
                                   FillText (''Count: '' @ decimal (the (fd_count d))) 10 30]
                             else [])\<rparr>,
                        False)))"

text \<open>
  \<^verbatim>\<open>processFrame\<close> after its \<^verbatim>\<open>await\<close>, for the request it posted: the
  \<^verbatim>\<open>try\<close> body, the \<^verbatim>\<open>catch\<close> and the \<^verbatim>\<open>finally\<close>.
\<close>

definition processFrame_settled ::
  "frame_request \<Rightarrow> fetch_outcome \<Rightarrow> camera_state \<Rightarrow> camera_state" where
  "processFrame_settled r outcome s =
     setIsProcessing False
       (case outcome of
          Rejected \<Rightarrow> consoleError ''Error processing frame: Failed to fetch'' s
        | Responded ok body \<Rightarrow>
            if \<not> ok then consoleError ''Error processing frame: Failed to process frame'' s
            else (case body of
                    None \<Rightarrow> consoleError ''Error processing frame: SyntaxError'' s
                  | Some d \<Rightarrow>
                      (case paintResults (fq_type r) d (setResults d s) of
                         (s', threw) \<Rightarrow>
                           if threw then consoleError ''Error processing frame: TypeError'' s'
                           else s')))"

text \<open>
  \<^verbatim>\<open>startCamera\<close> once \<^verbatim>\<open>getUserMedia\<close> resolves with a stream (its tracks are
  open from then on), and \<^verbatim>\<open>stopCamera\<close>.
\<close>

definition startCamera_granted :: "nat list \<Rightarrow> camera_state \<Rightarrow> camera_state" where
  "startCamera_granted stream s =
     (if \<not> ca_cameraPending s then s
      else (let s1 = s\<lparr>ca_cameraPending := False,
                        ca_liveTracks := ca_liveTracks s @ stream\<rparr>
            in case ca_videoRef s1 of None \<Rightarrow> s1
               | Some v \<Rightarrow> s1\<lparr>ca_videoRef := Some (v\<lparr>srcObject := Some stream\<rparr>)\<rparr>))"

definition stopCamera :: "camera_state \<Rightarrow> camera_state" where
  "stopCamera s =
     (case ca_videoRef s of None \<Rightarrow> s | Some v \<Rightarrow>
      (case srcObject v of None \<Rightarrow> s
       | Some stream \<Rightarrow>
           s\<lparr>ca_liveTracks := filter (\<lambda>t. t \<notin> set stream) (ca_liveTracks s)\<rparr>))"

text \<open>
  Unmounting runs the two effect cleanups (\<^verbatim>\<open>clearInterval\<close> and
  \<^verbatim>\<open>stopCamera\<close>) and detaches the refs.  The cleanup is run here with the video
  element still behind its ref, the order in which \<^verbatim>\<open>stopCamera\<close> releases the
  most; where React detaches the ref before the cleanup runs (React 17 and later),
  \<^verbatim>\<open>stopCamera\<close> finds no element and stops nothing.
\<close>

definition unmount :: "camera_state \<Rightarrow> camera_state" where
  "unmount s =
     (if \<not> ca_mounted s then s
      else (stopCamera s)\<lparr>ca_mounted := False, ca_videoRef := None, ca_canvasRef := None\<rparr>)"

text \<open>\<^verbatim>\<open>e.target.value.split(',')\<close>.\<close>

fun splitComma :: "string \<Rightarrow> string list" where
  "splitComma [] = [[]]"
| "splitComma (ch # rest) =
     (if ch = CHR '','' then [] # splitComma rest
      else (case splitComma rest of [] \<Rightarrow> [[ch]] | w # ws \<Rightarrow> (ch # w) # ws))"

text \<open>
  What happens to the page: the interval fires, a posted request ends, the route's
  \<^verbatim>\<open>type\<close> changes, the required-users input changes, the video delivers a frame,
  the camera permission is settled, the page unmounts.
\<close>

datatype event =
    Tick
  | Settle nat fetch_outcome
  | Navigate "string option"
  | RequiredUsersInput string
  | VideoFrame nat nat string
  | StreamGranted "nat list"
  | StreamDenied
  | Unmount

definition step :: "event \<Rightarrow> camera_state \<Rightarrow> camera_state" where
  "step e s =
     (case e of
        Tick \<Rightarrow> if ca_mounted s then fst (processFrame s) else s
      | Settle i outcome \<Rightarrow>
          if i < length (ca_inFlight s)
          then processFrame_settled (ca_inFlight s ! i) outcome
                 (s\<lparr>ca_inFlight := removeAt i (ca_inFlight s)\<rparr>)
          else s
      | Navigate t \<Rightarrow> if ca_mounted s then s\<lparr>ca_type := t\<rparr> else s
      | RequiredUsersInput txt \<Rightarrow>
          if ca_mounted s \<and> ca_type s = Some ''group''
          then s\<lparr>ca_requiredUsers := map trim (splitComma txt)\<rparr>
          else s
      | VideoFrame w h f \<Rightarrow>
          (case ca_videoRef s of None \<Rightarrow> s
           | Some v \<Rightarrow>
               if srcObject v = None then s
               else s\<lparr>ca_videoRef :=
                        Some (v\<lparr>videoWidth := w, videoHeight := h, currentFrame := f\<rparr>)\<rparr>)
      | StreamGranted stream \<Rightarrow> startCamera_granted stream s
      | StreamDenied \<Rightarrow>
          if ca_cameraPending s
          then consoleError ''Error accessing camera'' (s\<lparr>ca_cameraPending := False\<rparr>)
          else s
      | Unmount \<Rightarrow> unmount s)"

definition run :: "event list \<Rightarrow> camera_state \<Rightarrow> camera_state" where
  "run es s = fold step es s"

text \<open>
  The page as it mounts on the route \<^verbatim>\<open>/camera-analysis/:type\<close>: both elements
  are rendered, the video has no stream yet, the canvas has its default bitmap, and
  \<^verbatim>\<open>startCamera\<close> has asked for the camera.
\<close>

definition mount :: "string option \<Rightarrow> camera_state" where
  "mount type =
     \<lparr>ca_videoRef = Some \<lparr>videoWidth = 0, videoHeight = 0, currentFrame = [],
                           srcObject = None\<rparr>,
      ca_canvasRef = Some \<lparr>width = 300, height = 150, hasContext = True\<rparr>,
      ca_isProcessing = False, ca_results = None, ca_type = type,
      ca_requiredUsers = [], ca_mounted = True, ca_inFlight = [], ca_console = [],
      ca_painted = [], ca_cameraPending = True, ca_liveTracks = []\<rparr>"

section \<open>The Camera component: acquiring and releasing the camera\<close>

text \<open>
  One run of the camera effect (the effect runs again whenever \<^verbatim>\<open>isActive\<close>
  changes): its local variable \<^verbatim>\<open>stream\<close>, and whether its call of
  \<^verbatim>\<open>getUserMedia\<close> is still outstanding.
\<close>

record camera_effect =
  ce_stream :: "nat list option"
  ce_pending :: bool

text \<open>
  The component: the \<^verbatim>\<open>isActive\<close> prop, whether it is mounted, the stream bound
  to its video element, every run of the camera effect so far (the last one is the
  current one), the error it shows, and the tracks open at the device.
\<close>

record camera_component =
  cc_isActive :: bool
  cc_mounted :: bool
  cc_srcObject :: "nat list option"
  cc_effects :: "camera_effect list"
  cc_error :: "string option"
  cc_liveTracks :: "nat list"

text \<open>\<^verbatim>\<open>startCamera\<close> up to its \<^verbatim>\<open>await\<close>: it asks for the camera when active.\<close>

definition effect_start :: "bool \<Rightarrow> camera_effect" where
  "effect_start isActive = \<lparr>ce_stream = None, ce_pending = isActive\<rparr>"

text \<open>The cleanup of the current run: \<^verbatim>\<open>if (stream) stream.getTracks().forEach(stop)\<close>.\<close>

definition effect_cleanup :: "camera_component \<Rightarrow> camera_component" where
  "effect_cleanup s =
     (case cc_effects s of [] \<Rightarrow> s
      | e # es \<Rightarrow>
          (case ce_stream (last (cc_effects s)) of None \<Rightarrow> s
           | Some stream \<Rightarrow>
               s\<lparr>cc_liveTracks := filter (\<lambda>t. t \<notin> set stream) (cc_liveTracks s)\<rparr>))"

datatype camera_event =
    SetActive bool
  | Granted nat "nat list"
  | Denied nat
  | CameraUnmount

definition camera_step :: "camera_event \<Rightarrow> camera_component \<Rightarrow> camera_component" where
  "camera_step e s =
     (case e of
        SetActive b \<Rightarrow>
          if cc_mounted s \<and> b \<noteq> cc_isActive s
          then (effect_cleanup s)\<lparr>cc_isActive := b,
                 cc_effects := cc_effects s @ [effect_start b]\<rparr>
          else s
      | Granted k stream \<Rightarrow>
          if k < length (cc_effects s) \<and> ce_pending (cc_effects s ! k)
          then s\<lparr>cc_effects :=
                   (cc_effects s)[k := \<lparr>ce_stream = Some stream, ce_pending = False\<rparr>],
                 cc_liveTracks := cc_liveTracks s @ stream,
                 cc_srcObject := (if cc_mounted s then Some stream else cc_srcObject s)\<rparr>
          else s
      | Denied k \<Rightarrow>
          if k < length (cc_effects s) \<and> ce_pending (cc_effects s ! k)
          then s\<lparr>cc_effects := (cc_effects s)[k := \<lparr>ce_stream = None, ce_pending = False\<rparr>],
                 cc_error :=
                   (if cc_mounted s
                    then Some (''Failed to access camera. Please make sure you '' @
                               ''have granted camera permissions.'')
                    else cc_error s)\<rparr>
          else s
      | CameraUnmount \<Rightarrow>
          if cc_mounted s then (effect_cleanup s)\<lparr>cc_mounted := False\<rparr> else s)"

definition camera_run :: "camera_event list \<Rightarrow> camera_component \<Rightarrow> camera_component" where
  "camera_run es s = fold camera_step es s"

definition camera_mount :: "bool \<Rightarrow> camera_component" where
  "camera_mount isActive =
     \<lparr>cc_isActive = isActive, cc_mounted = True, cc_srcObject = None,
      cc_effects = [effect_start isActive], cc_error = None, cc_liveTracks = []\<rparr>"

section \<open>Predicates of the statements\<close>

definition is_submit :: "effect \<Rightarrow> bool" where
  "is_submit e = (case e of Submitted r \<Rightarrow> True | Encoded f \<Rightarrow> False)"

definition is_settle :: "event \<Rightarrow> bool" where
  "is_settle e = (case e of Settle i outcome \<Rightarrow> True | _ \<Rightarrow> False)"

text \<open>
  The outcomes on which \<^verbatim>\<open>processFrame\<close> reaches its \<^verbatim>\<open>catch\<close> before it
  stores a result: no response, a response that is not \<^verbatim>\<open>ok\<close>, a body that does
  not parse.
\<close>

definition is_failure :: "fetch_outcome \<Rightarrow> bool" where
  "is_failure outcome =
     (case outcome of Rejected \<Rightarrow> True | Responded ok body \<Rightarrow> \<not> ok \<or> body = None)"

text \<open>
  The invariant of the live page: at most one request awaits its response, and while
  the page is mounted with one outstanding, \<^verbatim>\<open>isProcessing\<close> is set.
\<close>

definition single_flight :: "camera_state \<Rightarrow> bool" where
  "single_flight s =
     (length (ca_inFlight s) \<le> 1 \<and>
      (ca_inFlight s = [] \<or> ca_isProcessing s \<or> \<not> ca_mounted s))"

section \<open>Example inputs\<close>

text \<open>
  A face as the identify endpoint may report it, a GroupAnalysis page in verification
  mode with an image and no required user, and an identify response with that face.
\<close>

definition alice :: face where
  "alice = \<lparr>name = ''alice'', confidence = 1 / 2, box = (64, 48, 64, 48), distance = None\<rparr>"

definition verification_page :: group_state where
  "verification_page =
     \<lparr>ga_mode = VerificationMode, ga_imageBase64 = Some ''data:image/jpeg;base64,AAAA'',
      ga_results = None, ga_isProcessing = False, ga_error = None,
      ga_requiredUsers = [], ga_registeredUsers = [''alice'', ''bob'']\<rparr>"

definition identify_response :: analysis_response where
  "identify_response =
     \<lparr>ar_success = True, ar_message = None, ar_results = Some [alice], ar_faces = None,
      ar_num_images_processed = None\<rparr>"


text \<open>
  The live page once the camera streams 640\<times>480 frames, and after the tick that then
  posts the first frame; three response bodies; and event sequences that end with a
  request in flight.
\<close>

definition live_events :: "event list" where
  "live_events = [StreamGranted [0], VideoFrame 640 480 ''AAAA'']"

definition busy_page :: camera_state where
  "busy_page = run (live_events @ [Tick]) (mount (Some ''face''))"

definition face_reply :: frame_data where
  "face_reply =
     \<lparr>fd_success = Some True,
      fd_faces = Some [\<lparr>lf_box = Some (64, 48, 64, 48), lf_userId = Some ''u1'',
                        lf_name = Some ''alice''\<rparr>],
      fd_count = None, fd_authenticated = None, fd_missingUsers = None\<rparr>"

definition auth_reply :: frame_data where
  "auth_reply =
     \<lparr>fd_success = Some True, fd_faces = None, fd_count = None,
      fd_authenticated = Some True, fd_missingUsers = Some []\<rparr>"

definition failure_reply :: frame_data where
  "failure_reply =
     \<lparr>fd_success = Some False, fd_faces = None, fd_count = None,
      fd_authenticated = None, fd_missingUsers = None\<rparr>"

definition group_events :: "event list" where
  "group_events =
     live_events @ [RequiredUsersInput ''alice'', Tick, RequiredUsersInput ''bob'']"

definition failed_events :: "event list" where
  "failed_events =
     live_events @ [Tick, Settle 0 (Responded True (Some face_reply)), Tick]"

definition six_files :: "string list" where
  "six_files = [''img1'', ''img2'', ''img3'', ''img4'', ''img5'', ''img6'']"

section \<open>The overlay: boxes and labels\<close>





lemma toFixed_examples:
  "toFixed (Suc 0) 50 = ''50.0''" "toFixed 2 (1 / 2) = ''0.50''"
  "toFixed 2 50 = ''50.00''" "toFixed (Suc 0) (1 / 2) = ''0.5''"
  by code_simp+

text \<open>
  Claim C8, at an input where the code breaks it.  The identify endpoint reports one
  face with confidence \<open>0.5\<close>.  The page stores the response and hands its faces to the
  Camera component, so the same face is labelled twice on the same page: \<open>0.50%\<close> in
  the results list, which prints the confidence as it is, and \<open>50.0%\<close> on the overlay,
  which multiplies it by 100.  Read as a fraction the confidence is \<open>50\<close> percent, read
  as a percentage it is \<open>0.5\<close> percent: whichever convention the endpoint follows, one
  of the two labels is wrong by a factor of 100.
\<close>

theorem identify_confidence_shown_two_ways:
  "renderResults (handleIdentifyFace_settled (Some identify_response) analysis_init)
     = [''Confidence: 0.50%''] \<and>
   overlayLabels (handleIdentifyFace_settled (Some identify_response) analysis_init)
     = [''alice (50.0%)''] \<and>
   toFixed 2 (spec_percent Fraction (confidence alice)) = ''50.00'' \<and>
   toFixed 1 (spec_percent Percentage (confidence alice)) = ''0.5''"
  by (simp add: renderResults_def overlayLabels_def handleIdentifyFace_settled_def
      analysis_init_def identify_response_def alice_def overlayLabel_def resultsLabel_def
      spec_percent_def toFixed_examples)

section \<open>GroupAnalysis: the guard on verification\<close>

text \<open>
  Claim C10.  A submit in verification mode with no required user posts nothing, sets
  an error message and leaves the stored results (and the busy flag) as they were, so
  results that were \<^verbatim>\<open>null\<close> stay \<^verbatim>\<open>null\<close>; and whenever \<^verbatim>\<open>handleSubmit\<close>
  posts to the verify-group endpoint, the request carries a non-empty list of required
  users.
\<close>

theorem verify_group_guard:
  "(ga_mode s = VerificationMode \<and> ga_requiredUsers s = [] \<longrightarrow>
      snd (handleSubmit s) = None \<and>
      ga_error (fst (handleSubmit s)) \<noteq> None \<and>
      ga_results (fst (handleSubmit s)) = ga_results s \<and>
      ga_isProcessing (fst (handleSubmit s)) = ga_isProcessing s) \<and>
   (\<forall>r. snd (handleSubmit s) = Some r \<and> gq_endpoint r = verify_group_url \<longrightarrow>
      (\<exists>us. gq_required_users r = Some us \<and> us \<noteq> []))"
  by (cases "ga_mode s")
    (auto simp: handleSubmit_def verify_group_url_def analyze_group_url_def)

theorem verify_group_guard_witness:
  "snd (handleSubmit verification_page) = None \<and>
   ga_error (fst (handleSubmit verification_page)) =
     Some ''Please select at least one required user for verification'' \<and>
   ga_results (fst (handleSubmit verification_page)) = None \<and>
   gq_required_users
     (the (snd (handleSubmit (verification_page\<lparr>ga_requiredUsers := [''alice'']\<rparr>)))) =
     Some [''alice'']"
proof -
  let ?one = "verification_page\<lparr>ga_requiredUsers := [''alice'']\<rparr>"
  have m: "ga_mode verification_page = VerificationMode \<and>
      ga_requiredUsers verification_page = []"
    by (simp add: verification_page_def)
  have e: "ga_error (fst (handleSubmit verification_page)) =
      Some ''Please select at least one required user for verification''"
    by (simp add: verification_page_def handleSubmit_def truthy_def)
  have r: "snd (handleSubmit ?one) =
      Some \<lparr>gq_endpoint = verify_group_url, gq_image = ''data:image/jpeg;base64,AAAA'',
            gq_required_users = Some [''alice'']\<rparr>"
    by (simp add: verification_page_def handleSubmit_def truthy_def)
  from verify_group_guard [of verification_page] m have
    "snd (handleSubmit verification_page) = None \<and>
     ga_results (fst (handleSubmit verification_page)) = ga_results verification_page"
    by blast
  moreover have "ga_results verification_page = None"
    by (simp add: verification_page_def)
  moreover from verify_group_guard [of ?one] r
  have "\<exists>us. gq_required_users (the (snd (handleSubmit ?one))) = Some us \<and> us \<noteq> []"
    by simp
  ultimately show ?thesis using e r by simp
qed

section \<open>Analysis and FaceRegistration: more than five images\<close>

lemma startedReaders_all:
  "length selectedImages + length newImages < 5 \<Longrightarrow>
     startedReaders selectedImages newImages files = files"
  by (induction files) simp_all

lemma startedReaders_none:
  "\<not> length selectedImages + length newImages < 5 \<Longrightarrow>
     startedReaders selectedImages newImages files = []"
  by (induction files) simp_all

lemma fold_onloadend_images:
  "an_selectedImages (fold (onloadend seen) files s) = an_selectedImages s @ files"
  by (induction files arbitrary: s) (simp_all add: onloadend_def Let_def)

text \<open>
  One selection adds all of its files as soon as fewer than five images are held, and
  none otherwise.
\<close>

lemma handleImageUpload_length:
  "length (an_selectedImages (handleImageUpload (Some files) s)) =
     length (an_selectedImages s) +
     (if length (an_selectedImages s) < 5 then length files else 0)"
  by (simp add: handleImageUpload_def fold_onloadend_images startedReaders_all
      startedReaders_none)

text \<open>Neither form posts a registration without an image.\<close>

lemma register_request_has_image:
  "snd (analysis_handleSubmit s) = Some (RegisterFace n images) \<Longrightarrow> images \<noteq> []"
  "snd (registration_handleSubmit s) = Some (RegisterFace n images) \<Longrightarrow> images \<noteq> []"
  by (auto simp: analysis_handleSubmit_def handleRegisterFace_def handleIdentifyFace_def
      registration_handleSubmit_def split: if_splits)

text \<open>
  Claim C9, at an input where the code breaks it.  With no image held, one selection of
  six files starts six readers (the guard compares against an array that stays empty),
  the page then holds six images, and both registration forms post all six.
\<close>

theorem six_images_registered:
  "an_selectedImages (handleImageUpload (Some six_files) analysis_init) = six_files \<and>
   snd (analysis_handleSubmit
          ((handleImageUpload (Some six_files) analysis_init)
             \<lparr>an_name := ''bob'', an_mode := Register\<rparr>))
     = Some (RegisterFace ''bob'' six_files) \<and>
   snd (registration_handleSubmit
          ((handleImageUpload (Some six_files) analysis_init)\<lparr>an_name := ''bob''\<rparr>))
     = Some (RegisterFace ''bob'' six_files) \<and>
   length six_files = 6"
  by code_simp

section \<open>CameraAnalysis: one request at a time\<close>

lemma captureFrame_frame:
  "ca_isProcessing (snd (captureFrame s)) = ca_isProcessing s"
  "ca_mounted (snd (captureFrame s)) = ca_mounted s"
  "ca_inFlight (snd (captureFrame s)) = ca_inFlight s"
  "ca_results (snd (captureFrame s)) = ca_results s"
  "ca_type (snd (captureFrame s)) = ca_type s"
  "ca_requiredUsers (snd (captureFrame s)) = ca_requiredUsers s"
  "ca_console (snd (captureFrame s)) = ca_console s"
  "ca_liveTracks (snd (captureFrame s)) = ca_liveTracks s"
  by (auto simp: captureFrame_def Let_def split: option.splits)

lemma processFrame_busy:
  assumes "ca_isProcessing s"
  shows "ca_inFlight (fst (processFrame s)) = ca_inFlight s"
    and "ca_isProcessing (fst (processFrame s))"
    and "ca_mounted (fst (processFrame s)) = ca_mounted s"
    and "filter is_submit (snd (processFrame s)) = []"
  using assms captureFrame_frame [of s]
  by (auto simp: processFrame_def Let_def is_submit_def split: prod.splits option.splits)

lemma processFrame_idle:
  assumes "\<not> ca_isProcessing s" and "ca_mounted s"
  shows "ca_inFlight (fst (processFrame s)) = ca_inFlight s \<and>
           \<not> ca_isProcessing (fst (processFrame s)) \<or>
         (\<exists>r. ca_inFlight (fst (processFrame s)) = ca_inFlight s @ [r]) \<and>
           ca_isProcessing (fst (processFrame s))"
    and "ca_mounted (fst (processFrame s))"
  using assms captureFrame_frame [of s]
  by (auto simp: processFrame_def Let_def setIsProcessing_def consoleError_def
      split: prod.splits option.splits)

lemma processFrame_submits:
  assumes "\<not> ca_isProcessing s" and "fst (captureFrame s) = Some f" and "f \<noteq> []"
    and "requestFor (ca_type s) f (ca_requiredUsers s) = Some r"
  shows "snd (processFrame s) = [Encoded f, Submitted r]"
  using assms captureFrame_frame [of s]
  by (auto simp: processFrame_def Let_def truthy_def split: prod.splits)

lemma paintResults_frame:
  "ca_isProcessing (fst (paintResults t d s)) = ca_isProcessing s"
  "ca_mounted (fst (paintResults t d s)) = ca_mounted s"
  "ca_inFlight (fst (paintResults t d s)) = ca_inFlight s"
  "ca_results (fst (paintResults t d s)) = ca_results s"
  "ca_console (fst (paintResults t d s)) = ca_console s"
  by (auto simp: paintResults_def split: option.splits prod.splits)

lemma settled_frame:
  "ca_inFlight (processFrame_settled r outcome s) = ca_inFlight s"
  "ca_mounted (processFrame_settled r outcome s) = ca_mounted s"
  "ca_mounted s \<Longrightarrow> \<not> ca_isProcessing (processFrame_settled r outcome s)"
  "\<not> ca_mounted s \<Longrightarrow>
     ca_isProcessing (processFrame_settled r outcome s) = ca_isProcessing s"
  by (auto simp: processFrame_settled_def setIsProcessing_def consoleError_def
      setResults_def case_prod_beta paintResults_frame
      split: fetch_outcome.splits option.splits)

lemma single_flight_step: "single_flight s \<Longrightarrow> single_flight (step e s)"
proof (cases e)
  case Tick
  assume inv: "single_flight s"
  show ?thesis
  proof (cases "ca_mounted s")
    case False
    with Tick inv show ?thesis by (simp add: step_def)
  next
    case True
    show ?thesis
    proof (cases "ca_isProcessing s")
      case True
      with Tick inv \<open>ca_mounted s\<close> processFrame_busy [of s] show ?thesis
        by (simp add: step_def single_flight_def)
    next
      case False
      with inv True have e: "ca_inFlight s = []" by (auto simp: single_flight_def)
      from processFrame_idle [OF False True] e Tick True show ?thesis
        by (auto simp: step_def single_flight_def)
    qed
  qed
next
  case (Settle i outcome)
  assume inv: "single_flight s"
  show ?thesis
  proof (cases "i < length (ca_inFlight s)")
    case False
    with Settle inv show ?thesis by (simp add: step_def)
  next
    case True
    with inv have "removeAt i (ca_inFlight s) = []"
      by (cases "ca_inFlight s") (auto simp: single_flight_def removeAt_def)
    with Settle True show ?thesis
      by (simp add: step_def single_flight_def settled_frame)
  qed
next
  case (Navigate t)
  assume "single_flight s"
  with Navigate show ?thesis by (auto simp: step_def single_flight_def)
next
  case (RequiredUsersInput typed)
  assume "single_flight s"
  with RequiredUsersInput show ?thesis by (auto simp: step_def single_flight_def)
next
  case (VideoFrame w h f)
  assume "single_flight s"
  with VideoFrame show ?thesis
    by (auto simp: step_def single_flight_def split: option.splits)
next
  case (StreamGranted stream)
  assume "single_flight s"
  with StreamGranted show ?thesis
    by (auto simp: step_def single_flight_def startCamera_granted_def Let_def
        split: option.splits)
next
  case StreamDenied
  assume "single_flight s"
  with StreamDenied show ?thesis
    by (auto simp: step_def single_flight_def consoleError_def)
next
  case Unmount
  assume "single_flight s"
  with Unmount show ?thesis
    by (auto simp: step_def single_flight_def unmount_def stopCamera_def
        split: option.splits)
qed

lemma single_flight_run: "single_flight s \<Longrightarrow> single_flight (run es s)"
  unfolding run_def by (induction es arbitrary: s) (simp_all add: single_flight_step)

lemma single_flight_mount: "single_flight (mount t)"
  by (simp add: single_flight_def mount_def)

text \<open>
  Claim C1, as the code has it.  Whatever happens to the live page after it mounts, at
  most one request awaits its response; and a tick that fires while one does posts
  nothing and queues nothing.  In the Camera component a tick that finds
  \<^verbatim>\<open>isProcessing\<close> set captures nothing and calls nothing.
\<close>

theorem at_most_one_in_flight:
  "length (ca_inFlight (run es (mount t))) \<le> 1 \<and>
   (ca_mounted (run es (mount t)) \<and> ca_inFlight (run es (mount t)) \<noteq> [] \<longrightarrow>
      filter is_submit (snd (processFrame (run es (mount t)))) = [] \<and>
      ca_inFlight (step Tick (run es (mount t))) = ca_inFlight (run es (mount t))) \<and>
   camera_processFrame continuousProcessing isActive videoRef canvasRef True = (True, canvasRef, None)"
proof -
  let ?s = "run es (mount t)"
  have inv: "single_flight ?s"
    by (rule single_flight_run [OF single_flight_mount])
  then have "length (ca_inFlight ?s) \<le> 1" by (simp add: single_flight_def)
  moreover have "filter is_submit (snd (processFrame ?s)) = [] \<and>
      ca_inFlight (step Tick ?s) = ca_inFlight ?s"
    if "ca_mounted ?s \<and> ca_inFlight ?s \<noteq> []"
  proof -
    from that inv have "ca_isProcessing ?s" by (auto simp: single_flight_def)
    with processFrame_busy [of ?s] that show ?thesis by (simp add: step_def)
  qed
  moreover have "camera_processFrame continuousProcessing isActive videoRef canvasRef True =
      (True, canvasRef, None)"
    by (simp add: camera_processFrame_def)
  ultimately show ?thesis by blast
qed

theorem at_most_one_in_flight_witness:
  "length (ca_inFlight busy_page) = 1 \<and>
   filter is_submit (snd (processFrame busy_page)) = [] \<and>
   ca_inFlight (step Tick busy_page) = ca_inFlight busy_page"
proof -
  have h: "ca_mounted busy_page \<and> ca_inFlight busy_page \<noteq> []"
    by code_simp
  have l: "length (ca_inFlight busy_page) = 1" by code_simp
  from at_most_one_in_flight [of "live_events @ [Tick]" "Some ''face''"] h l
  show ?thesis unfolding busy_page_def by blast
qed

text \<open>
  Against C1 as stated: the tick that fires while the first request of the live page is
  still in flight does encode the current frame.
\<close>

theorem busy_tick_encodes_counterexample:
  "ca_inFlight busy_page \<noteq> [] \<and>
   snd (processFrame busy_page) = [Encoded ''data:image/jpeg;base64,AAAA'']"
  by code_simp

section \<open>CameraAnalysis: late responses\<close>

text \<open>
  Claim C2, as the code has it.  No token is compared when a response arrives: on a
  mounted page the body of any \<^verbatim>\<open>ok\<close> response that parses becomes the stored
  result, whatever \<^verbatim>\<open>type\<close> and required users the page has by then.  Only a page
  that has unmounted keeps its results as they were.
\<close>

theorem late_response_published:
  "(ca_mounted s \<and> i < length (ca_inFlight s) \<longrightarrow>
      ca_results (step (Settle i (Responded True (Some d))) s) = Some d) \<and>
   (\<not> ca_mounted s \<longrightarrow> ca_results (step (Settle i outcome) s) = ca_results s)"
  by (auto simp: step_def processFrame_settled_def setIsProcessing_def consoleError_def
      setResults_def case_prod_beta paintResults_frame
      split: fetch_outcome.splits option.splits)

theorem late_response_published_witness:
  "ca_results (step (Settle 0 (Responded True (Some auth_reply)))
       (run group_events (mount (Some ''group'')))) = Some auth_reply \<and>
   ca_results (step (Settle 0 (Responded True (Some auth_reply)))
       (step Unmount (run group_events (mount (Some ''group''))))) = None"
proof -
  let ?s = "run group_events (mount (Some ''group''))"
  have h: "ca_mounted ?s \<and> 0 < length (ca_inFlight ?s)" by code_simp
  have u: "\<not> ca_mounted (step Unmount ?s)" "ca_results (step Unmount ?s) = None"
    by code_simp+
  from late_response_published [of ?s 0 auth_reply] h
  have "ca_results (step (Settle 0 (Responded True (Some auth_reply))) ?s) = Some auth_reply"
    by blast
  moreover
  from late_response_published [of "step Unmount ?s" 0 _ "Responded True (Some auth_reply)"] u
  have "ca_results (step (Settle 0 (Responded True (Some auth_reply))) (step Unmount ?s)) = None"
    by simp
  ultimately show ?thesis by simp
qed

text \<open>
  Against C2 as stated: a frame is posted for the required user \<^verbatim>\<open>alice\<close>, the
  input is changed to \<^verbatim>\<open>bob\<close> (the interval is re-created), and the answer to the
  first request is stored as the page's result all the same.
\<close>

theorem stale_result_counterexample:
  "map fq_requiredUsers (ca_inFlight (run group_events (mount (Some ''group''))))
     = [Some [''alice'']] \<and>
   ca_requiredUsers (run group_events (mount (Some ''group''))) = [''bob''] \<and>
   ca_results (run (group_events @ [Settle 0 (Responded True (Some auth_reply))])
       (mount (Some ''group''))) = Some auth_reply"
  by code_simp

section \<open>CameraAnalysis: how a request ends\<close>

lemma unsettled_step:
  assumes "\<not> is_settle e" and "ca_isProcessing s"
  shows "ca_inFlight (step e s) = ca_inFlight s \<and> ca_isProcessing (step e s)"
proof (cases e)
  case Tick
  with assms processFrame_busy [of s] show ?thesis by (simp add: step_def)
next
  case (Settle i outcome)
  with assms show ?thesis by (simp add: is_settle_def)
next
  case (StreamGranted stream)
  with assms show ?thesis
    by (auto simp: step_def startCamera_granted_def Let_def split: option.splits)
next
  case Unmount
  with assms show ?thesis
    by (auto simp: step_def unmount_def stopCamera_def split: option.splits)
qed (use assms in \<open>auto simp: step_def consoleError_def split: option.splits\<close>)

lemma unsettled_run:
  "list_all (\<lambda>e. \<not> is_settle e) es \<Longrightarrow> ca_isProcessing s \<Longrightarrow>
     ca_inFlight (run es s) = ca_inFlight s \<and> ca_isProcessing (run es s)"
  unfolding run_def
proof (induction es arbitrary: s)
  case Nil
  then show ?case by simp
next
  case (Cons e es)
  from Cons.prems have e: "\<not> is_settle e" and es: "list_all (\<lambda>e. \<not> is_settle e) es"
    by simp_all
  from unsettled_step [OF e Cons.prems(2)]
  have "ca_inFlight (step e s) = ca_inFlight s" and "ca_isProcessing (step e s)"
    by simp_all
  with Cons.IH [OF es, of "step e s"] show ?case by simp
qed

text \<open>
  Claim C3, as the code has it.  A posted frame carries no timeout: as long as no
  response or transport failure arrives, whatever else happens and however many ticks
  fire, the request stays in flight and \<^verbatim>\<open>isProcessing\<close> stays set.  When the
  request does end, with any outcome, \<^verbatim>\<open>isProcessing\<close> is cleared; the same holds
  for the busy flags of GroupAnalysis and Analysis.
\<close>

theorem submission_has_no_timeout:
  "(list_all (\<lambda>e. \<not> is_settle e) es \<and> ca_isProcessing s \<longrightarrow>
      ca_inFlight (run es s) = ca_inFlight s \<and> ca_isProcessing (run es s)) \<and>
   (ca_mounted s \<and> i < length (ca_inFlight s) \<longrightarrow>
      \<not> ca_isProcessing (step (Settle i outcome) s)) \<and>
   \<not> ga_isProcessing (handleSubmit_settled submitted group_outcome gs) \<and>
   \<not> an_isProcessing (handleIdentifyFace_settled identify_outcome page)"
  using unsettled_run [of es s]
  by (auto simp: step_def settled_frame handleSubmit_settled_def
      handleIdentifyFace_settled_def split: axios_outcome.splits option.splits)

theorem submission_has_no_timeout_witness:
  "ca_inFlight (run (replicate 11 Tick) busy_page) = ca_inFlight busy_page \<and>
   ca_isProcessing (run (replicate 11 Tick) busy_page) \<and>
   \<not> ca_isProcessing (step (Settle 0 Rejected) busy_page)"
proof -
  have a: "list_all (\<lambda>e. \<not> is_settle e) (replicate 11 Tick) \<and> ca_isProcessing busy_page"
    by code_simp
  have b: "ca_mounted busy_page \<and> 0 < length (ca_inFlight busy_page)"
    by code_simp
  from submission_has_no_timeout [of "replicate 11 Tick" busy_page 0 Rejected] a b
  show ?thesis by blast
qed

text \<open>
  Against C3 as stated: eleven ticks of one second after a frame was posted, with no
  response, the request is still in flight and the page still busy.
\<close>

theorem no_timeout_counterexample:
  "length (ca_inFlight (run (replicate 11 Tick) busy_page)) = 1 \<and>
   ca_isProcessing (run (replicate 11 Tick) busy_page)"
  by code_simp

section \<open>Capturing a frame that is not there\<close>

text \<open>
  Claim C4, as the code has it.  \<^verbatim>\<open>captureFrame\<close> yields no frame exactly when the
  video element, the canvas element or its 2D context is missing, and then the tick
  does nothing at all.  On a video without dimensions it yields the data URL of an
  empty canvas, \<^verbatim>\<open>data:,\<close>, and so does \<^verbatim>\<open>captureAndProcess\<close> of the Camera
  component, which hands it to \<^verbatim>\<open>onCapture\<close>.
\<close>

theorem captureFrame_not_ready:
  "(fst (captureFrame s) = None \<longleftrightarrow>
      ca_videoRef s = None \<or> ca_canvasRef s = None \<or>
      \<not> hasContext (the (ca_canvasRef s))) \<and>
   (fst (captureFrame s) = None \<longrightarrow> processFrame s = (s, [])) \<and>
   (ca_videoRef s = Some v \<and> ca_canvasRef s = Some c \<and> hasContext c \<and>
      (videoWidth v = 0 \<or> videoHeight v = 0) \<longrightarrow>
      fst (captureFrame s) = Some ''data:,'' \<and>
      captureAndProcess (Some v) (Some c) False =
        (False, Some (c\<lparr>width := videoWidth v, height := videoHeight v\<rparr>),
         Some ''data:,''))"
  by (auto simp: captureFrame_def processFrame_def captureAndProcess_def toDataURL_def
      truthy_def Let_def split: option.splits)

theorem captureFrame_not_ready_witness:
  "fst (captureFrame (step Unmount (mount (Some ''face'')))) = None \<and>
   processFrame (step Unmount (mount (Some ''face''))) =
     (step Unmount (mount (Some ''face'')), []) \<and>
   fst (captureFrame (mount (Some ''face''))) = Some ''data:,''"
proof -
  let ?u = "step Unmount (mount (Some ''face''))"
  let ?m = "mount (Some ''face'')"
  have u: "ca_videoRef ?u = None" by code_simp
  have m: "ca_videoRef ?m =
        Some \<lparr>videoWidth = 0, videoHeight = 0, currentFrame = [], srcObject = None\<rparr> \<and>
      ca_canvasRef ?m = Some \<lparr>width = 300, height = 150, hasContext = True\<rparr>"
    by (simp add: mount_def)
  from captureFrame_not_ready [of ?u] u have "fst (captureFrame ?u) = None" by blast
  moreover from captureFrame_not_ready [of ?u] this have "processFrame ?u = (?u, [])"
    by blast
  moreover from captureFrame_not_ready [of ?m
      "\<lparr>videoWidth = 0, videoHeight = 0, currentFrame = [], srcObject = None\<rparr>"
      "\<lparr>width = 300, height = 150, hasContext = True\<rparr>"] m
  have "fst (captureFrame ?m) = Some ''data:,''" by simp
  ultimately show ?thesis by simp
qed

text \<open>
  Against C4 as stated: the first tick of a freshly mounted page, whose video has no
  dimensions yet, encodes \<^verbatim>\<open>data:,\<close> and posts it.
\<close>

theorem zero_size_frame_submitted_counterexample:
  "snd (processFrame (mount (Some ''face''))) =
     [Encoded ''data:,'',
      Submitted \<lparr>fq_type = Some ''face'',
                 fq_url = ''http://localhost:5001/api/identify-face'',
                 fq_image = ''data:,'', fq_requiredUsers = None\<rparr>]"
  by code_simp

section \<open>CameraAnalysis: failed requests\<close>

text \<open>
  Claim C6, as the code has it.  When a request of a mounted page fails (no response, a
  response that is not \<^verbatim>\<open>ok\<close>, a body that does not parse), the stored result stays
  what it was, one line is written to the console, \<^verbatim>\<open>isProcessing\<close> is cleared, the
  page stays mounted with its interval, nothing is posted in between, and the next tick
  that captures a frame for a known \<^verbatim>\<open>type\<close> posts it.
\<close>

theorem failure_keeps_scheduler_armed:
  assumes "ca_mounted s" and "i < length (ca_inFlight s)" and "is_failure outcome"
  shows "ca_results (step (Settle i outcome) s) = ca_results s \<and>
         \<not> ca_isProcessing (step (Settle i outcome) s) \<and>
         ca_mounted (step (Settle i outcome) s) \<and>
         length (ca_console (step (Settle i outcome) s)) = Suc (length (ca_console s)) \<and>
         ca_inFlight (step (Settle i outcome) s) = removeAt i (ca_inFlight s) \<and>
         (\<forall>f r. fst (captureFrame (step (Settle i outcome) s)) = Some f \<and> f \<noteq> [] \<and>
                requestFor (ca_type s) f (ca_requiredUsers s) = Some r \<longrightarrow>
                snd (processFrame (step (Settle i outcome) s)) = [Encoded f, Submitted r])"
proof -
  let ?s' = "step (Settle i outcome) s"
  have eq: "?s' = processFrame_settled (ca_inFlight s ! i) outcome
      (s\<lparr>ca_inFlight := removeAt i (ca_inFlight s)\<rparr>)"
    using assms(2) by (simp add: step_def)
  have basic: "ca_results ?s' = ca_results s" "\<not> ca_isProcessing ?s'" "ca_mounted ?s'"
    "length (ca_console ?s') = Suc (length (ca_console s))"
    "ca_inFlight ?s' = removeAt i (ca_inFlight s)"
    "ca_type ?s' = ca_type s" "ca_requiredUsers ?s' = ca_requiredUsers s"
    using assms(1,3) unfolding eq
    by (auto simp: processFrame_settled_def setIsProcessing_def consoleError_def
        is_failure_def split: fetch_outcome.splits option.splits)
  have "snd (processFrame ?s') = [Encoded f, Submitted r]"
    if "fst (captureFrame ?s') = Some f \<and> f \<noteq> [] \<and>
        requestFor (ca_type s) f (ca_requiredUsers s) = Some r" for f r
    using that basic processFrame_submits [of ?s' f r] by simp
  with basic show ?thesis by blast
qed

theorem failure_keeps_scheduler_armed_witness:
  "ca_results (run (failed_events @ [Settle 0 Rejected]) (mount (Some ''face'')))
     = Some face_reply \<and>
   \<not> ca_isProcessing (run (failed_events @ [Settle 0 Rejected]) (mount (Some ''face''))) \<and>
   ca_inFlight (run (failed_events @ [Settle 0 Rejected]) (mount (Some ''face''))) = [] \<and>
   snd (processFrame (run (failed_events @ [Settle 0 Rejected]) (mount (Some ''face'')))) =
     [Encoded ''data:image/jpeg;base64,AAAA'',
      Submitted \<lparr>fq_type = Some ''face'',
                 fq_url = ''http://localhost:5001/api/identify-face'',
                 fq_image = ''data:image/jpeg;base64,AAAA'', fq_requiredUsers = None\<rparr>]"
proof -
  let ?s = "run failed_events (mount (Some ''face''))"
  let ?r = "\<lparr>fq_type = Some ''face'', fq_url = ''http://localhost:5001/api/identify-face'',
             fq_image = ''data:image/jpeg;base64,AAAA'', fq_requiredUsers = None\<rparr>"
  have st: "run (failed_events @ [Settle 0 Rejected]) (mount (Some ''face'')) =
      step (Settle 0 Rejected) ?s"
    by (simp add: run_def)
  have h: "ca_mounted ?s" "0 < length (ca_inFlight ?s)" "is_failure Rejected"
    by code_simp+
  have v: "ca_results ?s = Some face_reply" "removeAt 0 (ca_inFlight ?s) = []"
    by code_simp+
  have c: "fst (captureFrame (step (Settle 0 Rejected) ?s)) =
        Some ''data:image/jpeg;base64,AAAA'' \<and>
      ''data:image/jpeg;base64,AAAA'' \<noteq> [] \<and>
      requestFor (ca_type ?s) ''data:image/jpeg;base64,AAAA'' (ca_requiredUsers ?s) = Some ?r"
    by code_simp
  from failure_keeps_scheduler_armed [OF h] v c show ?thesis
    unfolding st by (metis (no_types, lifting))
qed

text \<open>
  Against C6 as stated: after a rejected request, and after a response that is not
  \<^verbatim>\<open>ok\<close>, the page still stores the result of the cycle before, not a failure
  marker; and a body with \<^verbatim>\<open>success: false\<close> under an \<^verbatim>\<open>ok\<close> status is stored
  as a result like any other.
\<close>

theorem failure_marker_counterexample:
  "ca_results (run (failed_events @ [Settle 0 Rejected]) (mount (Some ''face'')))
     = Some face_reply \<and>
   ca_results (run (failed_events @ [Settle 0 (Responded False None)])
       (mount (Some ''face''))) = Some face_reply \<and>
   ca_results (run (live_events @ [Tick, Settle 0 (Responded True (Some failure_reply))])
       (mount (Some ''face''))) = Some failure_reply \<and>
   fd_success failure_reply = Some False"
  by code_simp

section \<open>Releasing the camera\<close>

lemma stopCamera_idempotent: "stopCamera (stopCamera s) = stopCamera s"
  by (auto simp: stopCamera_def split: option.splits)

lemma stopCamera_releases:
  "ca_videoRef s = Some v \<Longrightarrow> srcObject v = Some stream \<Longrightarrow>
     set (ca_liveTracks (stopCamera s)) \<inter> set stream = {}"
  by (auto simp: stopCamera_def)

lemma unmounted_step:
  assumes "\<not> ca_mounted s" and "ca_videoRef s = None"
  shows "\<not> ca_mounted (step e s) \<and> ca_videoRef (step e s) = None \<and>
         set (ca_liveTracks s) \<subseteq> set (ca_liveTracks (step e s))"
proof (cases e)
  case (Settle i outcome)
  with assms show ?thesis
    by (auto simp: step_def processFrame_settled_def setIsProcessing_def consoleError_def
        setResults_def paintResults_def case_prod_beta
        split: fetch_outcome.splits option.splits)
next
  case (StreamGranted stream)
  with assms show ?thesis
    by (auto simp: step_def startCamera_granted_def Let_def)
qed (use assms in \<open>auto simp: step_def consoleError_def unmount_def\<close>)

text \<open>Once the live page has unmounted, no event closes a track that is open.\<close>

lemma unmounted_tracks_stay:
  "\<not> ca_mounted s \<Longrightarrow> ca_videoRef s = None \<Longrightarrow>
     set (ca_liveTracks s) \<subseteq> set (ca_liveTracks (run es s))"
  unfolding run_def
proof (induction es arbitrary: s)
  case Nil
  then show ?case by simp
next
  case (Cons e es)
  from unmounted_step [OF Cons.prems, of e] Cons.IH [of "step e s"]
  show ?case by auto
qed

text \<open>
  Claim C5, at inputs where the code breaks it.  The live page unmounts while
  \<^verbatim>\<open>getUserMedia\<close> is outstanding, and the stream is granted afterwards: its track
  is open, no call of \<^verbatim>\<open>stopCamera\<close> closes it, and nothing that happens later
  does.  The Camera component does the same when it is deactivated or unmounted before
  the grant.
\<close>

theorem camera_left_open_after_teardown:
  "ca_liveTracks (run [Unmount, StreamGranted [7]] (mount (Some ''face''))) = [7] \<and>
   ca_liveTracks (stopCamera (run [Unmount, StreamGranted [7]] (mount (Some ''face''))))
     = [7] \<and>
   ca_liveTracks (run [Unmount, StreamGranted [7], Unmount, Tick] (mount (Some ''face'')))
     = [7] \<and>
   cc_liveTracks (camera_run [CameraUnmount, Granted 0 [7]] (camera_mount True)) = [7] \<and>
   cc_liveTracks (camera_run [SetActive False, Granted 0 [7], CameraUnmount]
       (camera_mount True)) = [7]"
  by code_simp

end
